theory Spec2Isabelle
  imports Main
begin

section \<open>JavaScript values used by index.ts\<close>

subsection \<open>Numbers\<close>

text \<open>
  A JavaScript number is an IEEE-754 double. The handlers of index.ts use two
  primitives on numbers: the operator \<open>+\<close> and the conversion to a string inside a
  template literal. The handlers are written against a record of these two primitives,
  so that what is proved of a handler for every \<open>'n number_ops\<close> holds for the
  real doubles as well.
\<close>

record 'n number_ops =
  num_add :: "'n \<Rightarrow> 'n \<Rightarrow> 'n"
  num_toString :: "'n \<Rightarrow> string"

text \<open>
  The integer-valued doubles, carried by \<open>int\<close>. The sum of two doubles is the exact
  sum rounded to a 53-bit significand, ties to the even significand; \<open>round_double\<close>
  writes that rounding out on integers (overflow to Infinity, from \<open>2 ^ 1024\<close> on,
  is left out). \<open>Number.isSafeInteger\<close> holds up to \<open>2 ^ 53 - 1\<close>.
\<close>

fun bit_length :: "nat \<Rightarrow> nat" where
  "bit_length n = (if n = 0 then 0 else Suc (bit_length (n div 2)))"

definition round_double :: "int \<Rightarrow> int" where
  "round_double x =
     (let m = nat \<bar>x\<bar> in
      if m < 2 ^ 53 then x
      else
        let e = bit_length m - 53;
            q = m div 2 ^ e;
            r = m mod 2 ^ e;
            h = 2 ^ (e - 1);
            q' = (if h < r \<or> (r = h \<and> odd q) then q + 1 else q)
        in sgn x * int (q' * 2 ^ e))"

definition isSafeInteger :: "int \<Rightarrow> bool" where
  "isSafeInteger x \<longleftrightarrow> \<bar>x\<bar> \<le> 2 ^ 53 - 1"

text \<open>
  Number::toString on an integer-valued double below \<open>10 ^ 21\<close> prints its decimal
  digits, with a minus sign when negative. On the safe integers and on the sums of two
  of them the digits are those of the integer itself.
\<close>

fun digits :: "nat \<Rightarrow> string" where
  "digits n =
     (if n < 10 then [''0123456789'' ! n]
      else digits (n div 10) @ [''0123456789'' ! (n mod 10)])"

definition int_toString :: "int \<Rightarrow> string" where
  "int_toString x = (if x < 0 then ''-'' @ digits (nat (- x)) else digits (nat x))"

definition integer_numbers :: "int number_ops" where
  "integer_numbers =
     \<lparr>num_add = (\<lambda>a b. round_double (a + b)), num_toString = int_toString\<rparr>"

subsection \<open>JSON values, errors, the diagnostic channel\<close>

datatype 'n json =
    JNull
  | JBoolean bool
  | JNumber 'n
  | JString string
  | JArray "'n json list"
  | JObject "(string \<times> 'n json) list"

text \<open>A thrown JavaScript \<open>Error\<close> with its message.\<close>

datatype js_error = Error string

text \<open>\<open>Error.prototype.toString\<close>, which a template literal applies to \<open>${error}\<close>.\<close>

fun error_toString :: "js_error \<Rightarrow> string" where
  "error_toString (Error msg) = (if msg = [] then ''Error'' else ''Error: '' @ msg)"

text \<open>
  Modelled from the spec: the violations of a Validation Result (section 3: field name,
  expected type, reason) and the error taxonomy of the request runtime (section 7). The
  error kind is the constructor, the details are its argument.
\<close>

datatype jtype = TNumber | TString | TBoolean | TNull | TArray | TObject

datatype violation_reason = Missing | TypeMismatch

record violation =
  vfield :: string
  vexpected :: jtype
  vreason :: violation_reason

datatype error =
    DuplicateOperationError string
  | UnknownOperationError string
  | ValidationError "violation list"
  | HandlerError js_error

text \<open>
  Standard error is the diagnostic channel. Each \<open>console.error\<close> call appends one
  entry holding its arguments; an exception that leaves the module uncaught is reported
  there by the Node.js runtime, which then ends the process with exit code 1.
\<close>

datatype log_arg = LStr string | LErr js_error

datatype log_entry = ConsoleError "log_arg list" | UncaughtException error

type_synonym log = "log_entry list"

definition console_error :: "log_arg list \<Rightarrow> log \<Rightarrow> log" where
  "console_error args l = l @ [ConsoleError args]"

subsection \<open>Results of tools, prompts and resources\<close>

text \<open>\<open>{ type: "text", text: ... }\<close>\<close>

record text_content =
  ctype :: string
  ctext :: string

text \<open>\<open>{ content: [...], isError?: boolean }\<close>\<close>

record tool_result =
  content :: "text_content list"
  isError :: "bool option"

text \<open>\<open>{ messages: [{ role, content: { type, text } }] }\<close>\<close>

record prompt_message =
  role :: string
  mcontent :: text_content

record prompt_result =
  messages :: "prompt_message list"

text \<open>\<open>{ contents: [{ uri, text }], isError?: boolean }\<close>\<close>

record resource_content =
  ruri :: string
  rtext :: string

record resource_result =
  contents :: "resource_content list"
  risError :: "bool option"

record url =
  href :: string

datatype handler_result =
    ToolResult tool_result
  | PromptResult prompt_result
  | ResourceResult resource_result

fun result_isError :: "handler_result \<Rightarrow> bool option" where
  "result_isError (ToolResult r) = isError r"
| "result_isError (PromptResult r) = None"
| "result_isError (ResourceResult r) = risError r"

section \<open>The handlers of index.ts\<close>

text \<open>
  A handler is an async function: it either resolves to a result (\<open>Inr\<close>) or rejects
  with an error (\<open>Inl\<close>), and it may write to the diagnostic channel, which is
  threaded through as state.
\<close>

text \<open>Tool add-numbers (index.ts, lines 94 to 99).\<close>

definition add_numbers ::
  "'n number_ops \<Rightarrow> 'n \<Rightarrow> 'n \<Rightarrow> log \<Rightarrow> (js_error + tool_result) \<times> log" where
  "add_numbers N a b l =
     (let sum = num_add N a b in
      (Inr \<lparr>content =
              [\<lparr>ctype = ''text'',
                ctext = ''The sum of '' @ num_toString N a @ '' and '' @ num_toString N b
                          @ '' is '' @ num_toString N sum\<rparr>],
            isError = None\<rparr>,
       l))"

text \<open>Tool meeting-agenda-generator (index.ts, lines 129 to 151).\<close>

definition meeting_agenda_generator ::
  "string \<Rightarrow> string \<Rightarrow> string \<Rightarrow> log \<Rightarrow> (js_error + tool_result) \<times> log" where
  \<open>meeting_agenda_generator meetingTitle participants duration l =
     (let l1 = console_error [LStr (''[Tool] Generating meeting agenda for: '' @ meetingTitle)] l;
          prompt =
            ''Create a structured agenda for a "'' @ meetingTitle @ ''" meeting with '' @
            participants @ '' that will last '' @ duration @
            ''.\<newline>\<newline>The agenda should include:\<newline>1. Meeting Objective (1-2 sentences)\<newline>2. Discussion Topics (prioritized list with time allocations)\<newline>3. Required Preparation for Participants\<newline>4. Expected Outcomes/Deliverables\<newline>5. Next Steps and Action Items Template\<newline>\<newline>Format the agenda to be clear, concise, and actionable. Ensure the timing works within the '' @
            duration @ '' constraint.''
      in (Inr \<lparr>content = [\<lparr>ctype = ''text'', ctext = prompt\<rparr>], isError = None\<rparr>, l1))\<close>

text \<open>Prompt story-idea-generator (index.ts, lines 184 to 215).\<close>

definition story_idea_generator ::
  "string \<Rightarrow> string \<Rightarrow> string \<Rightarrow> log \<Rightarrow> (js_error + prompt_result) \<times> log" where
  "story_idea_generator topics genre mood l =
     (let l1 = console_error
                 [LStr (''[Prompt] Generating story ideas with topics: '' @ topics @
                        '', genre: '' @ genre @ '', mood: '' @ mood)] l
      in (Inr \<lparr>messages =
                [\<lparr>role = ''user'',
                  mcontent =
                    \<lparr>ctype = ''text'',
                     ctext =
                       ''You are a creative writing assistant specializing in generating unique and engaging story ideas. Provide detailed story concepts with potential plot points, character ideas, and thematic elements.\<newline>\<newline>I need creative story ideas that incorporate the following elements:\<newline>            \<newline>Topics/Themes: '' @
                       topics @ ''\<newline>Genre: '' @ genre @ ''\<newline>Mood/Tone: '' @ mood @
                       ''\<newline>\<newline>Please generate 3 unique story ideas that blend these elements together. For each idea, include:\<newline>1. A compelling title\<newline>2. A brief premise (1-2 sentences)\<newline>3. Main character concept\<newline>4. Key plot points or story arc\<newline>5. Potential themes or messages\<newline>\<newline>Make the ideas distinct from each other and tailored specifically to my requirements.''\<rparr>\<rparr>]\<rparr>,
          l1))"

text \<open>
  Resource sample-text (index.ts, lines 232 to 257). \<open>sampleText\<close> is the constant
  imported from ./resources/sample.js; it is a parameter here. \<open>sample_text_try\<close> is
  the body of the \<open>try\<close> block, \<open>sample_text\<close> the handler with its \<open>catch\<close>.
\<close>

definition sample_text_try ::
  "string \<Rightarrow> url \<Rightarrow> log \<Rightarrow> (js_error + resource_result) \<times> log" where
  "sample_text_try sampleText uri l =
     (let l1 = console_error [LStr ''[Resource] Successfully loaded sample text content''] l
      in (Inr \<lparr>contents = [\<lparr>ruri = href uri, rtext = sampleText\<rparr>], risError = None\<rparr>, l1))"

definition sample_text ::
  "string \<Rightarrow> url \<Rightarrow> log \<Rightarrow> (js_error + resource_result) \<times> log" where
  "sample_text sampleText uri l =
     (let l0 = console_error [LStr ''[Resource] Providing sample text content''] l in
      case sample_text_try sampleText uri l0 of
        (Inr r, l1) \<Rightarrow> (Inr r, l1)
      | (Inl error, l1) \<Rightarrow>
          (let l2 = console_error
                      [LStr (''[Error] Failed to load sample text: '' @ error_toString error)] l1
           in (Inr \<lparr>contents =
                     [\<lparr>ruri = href uri,
                       rtext = ''Error: Failed to load sample text content. '' @
                               error_toString error\<rparr>],
                   risError = Some True\<rparr>,
               l2)))"

section \<open>Startup: main\<close>

text \<open>
  \<open>main\<close> (index.ts, lines 263 to 283). The constructor of the stdio transport and
  \<open>server.connect\<close> belong to the protocol library; their outcomes are parameters.
  \<open>process.exit(1)\<close> is the outcome \<open>Exit 1\<close>.
\<close>

datatype outcome = Running | Exit int

definition main ::
  "(js_error + 't) \<Rightarrow> ('t \<Rightarrow> js_error + unit) \<Rightarrow> log \<Rightarrow> outcome \<times> log" where
  "main newTransport connect l =
     (let l1 = console_error [LStr ''MCP Template Server starting...''] l in
      case newTransport of
        Inl error \<Rightarrow>
          (Exit 1, console_error [LStr ''Error starting MCP Template Server:'', LErr error] l1)
      | Inr transport \<Rightarrow>
          (case connect transport of
             Inl error \<Rightarrow>
               (Exit 1,
                console_error [LStr ''Error starting MCP Template Server:'', LErr error] l1)
           | Inr _ \<Rightarrow>
               (Running, console_error [LStr ''MCP Template Server running...''] l1)))"

section \<open>The request runtime: data model\<close>

text \<open>
  Modelled from the spec: the data model of the request runtime (section 3). index.ts
  hands its tools, prompt and resource to the protocol library (\<open>server.tool\<close>,
  \<open>server.prompt\<close>, \<open>server.resource\<close>), which is not part of the repository's
  sources. The specification describes that runtime as a Registry, a Schema Validator
  and a Dispatcher over Operation Descriptors, Requests and Responses.
\<close>

record field_spec =
  ftype :: jtype
  required :: bool
  fdescription :: string

type_synonym schema = "(string \<times> field_spec) list"

fun type_of :: "'n json \<Rightarrow> jtype" where
  "type_of JNull = TNull"
| "type_of (JBoolean _) = TBoolean"
| "type_of (JNumber _) = TNumber"
| "type_of (JString _) = TString"
| "type_of (JArray _) = TArray"
| "type_of (JObject _) = TObject"

type_synonym 'n params = "(string \<times> 'n json) list"

type_synonym 'n handler = "'n params \<Rightarrow> log \<Rightarrow> (js_error + handler_result) \<times> log"

record 'n descriptor =
  op_name :: string
  op_description :: string
  op_schema :: schema
  op_handler :: "'n handler"

type_synonym 'n registry = "'n descriptor list"

datatype corr_id = IdString string | IdNumber int

record 'n request =
  req_id :: corr_id
  req_op :: string
  req_params :: "'n params"

datatype payload = Success handler_result | Failure error

record response =
  resp_id :: corr_id
  resp_payload :: payload
  resp_isError :: "bool option"

datatype dispatch_state = RECEIVED | VALIDATED | EXECUTING | SUCCEEDED | FAILED

section \<open>Schema Validator\<close>

text \<open>
  Modelled from the spec: \<open>validate(schema, input)\<close> of the Schema Validator (section
  4.2), which the repository delegates to the zod library. It goes through the declared
  fields in order; a required field absent from the input is a violation, a present
  field whose runtime type differs from the declared type is a violation, undeclared
  fields are ignored. With no violation the input object is returned as it is,
  otherwise the result is a \<open>ValidationError\<close> with all violations.
\<close>

definition check_field :: "'n params \<Rightarrow> string \<times> field_spec \<Rightarrow> violation list" where
  "check_field input fs =
     (case map_of input (fst fs) of
        None \<Rightarrow>
          if required (snd fs)
          then [\<lparr>vfield = fst fs, vexpected = ftype (snd fs), vreason = Missing\<rparr>]
          else []
      | Some v \<Rightarrow>
          if type_of v \<noteq> ftype (snd fs)
          then [\<lparr>vfield = fst fs, vexpected = ftype (snd fs), vreason = TypeMismatch\<rparr>]
          else [])"

text \<open>
  Modelled from the spec: the loop of \<open>validate\<close> over the declared fields, in their
  order, collecting every violation.
\<close>

fun violations :: "schema \<Rightarrow> 'n params \<Rightarrow> violation list" where
  "violations [] input = []"
| "violations (fs # rest) input = check_field input fs @ violations rest input"

text \<open>
  Modelled from the spec: \<open>validate\<close> itself, the input object with zero violations
  and the \<open>ValidationError\<close> with the full list otherwise.
\<close>

definition validate :: "schema \<Rightarrow> 'n params \<Rightarrow> error + 'n params" where
  "validate schema input =
     (case violations schema input of
        [] \<Rightarrow> Inr input
      | v # vs \<Rightarrow> Inl (ValidationError (v # vs)))"

text \<open>
  The specification's words for a violated field, stated on their own and apart from
  the loop of \<open>validate\<close>: the field is declared with some specification, and it is
  either required and absent from the input, or present with a value of another type.
  \<open>violated_fields\<close> lists the declared fields that are violated.
\<close>

definition violated :: "schema \<Rightarrow> 'n params \<Rightarrow> string \<Rightarrow> bool" where
  "violated schema input f \<longleftrightarrow>
     list_ex (\<lambda>fs. fst fs = f \<and>
                   (case map_of input f of
                      None \<Rightarrow> required (snd fs)
                    | Some v \<Rightarrow> type_of v \<noteq> ftype (snd fs))) schema"

definition violated_fields :: "schema \<Rightarrow> 'n params \<Rightarrow> string list" where
  "violated_fields schema input = filter (violated schema input) (map fst schema)"

section \<open>Registry\<close>

text \<open>
  Modelled from the spec: \<open>register(name, description, schema, handler)\<close> and
  \<open>lookup(name)\<close> of the Registry (section 4.3), which the repository delegates to the
  protocol library. \<open>register\<close> fails with \<open>DuplicateOperationError\<close> if the name is
  already present and inserts the descriptor otherwise; \<open>lookup\<close> returns the
  descriptor or fails with \<open>UnknownOperationError\<close>. The registry is kept as the list
  of descriptors in registration order.
\<close>

definition register ::
  "'n registry \<Rightarrow> string \<Rightarrow> string \<Rightarrow> schema \<Rightarrow> 'n handler \<Rightarrow> error + 'n registry" where
  "register reg name description schema handler =
     (if name \<in> set (map op_name reg) then Inl (DuplicateOperationError name)
      else Inr (reg @ [\<lparr>op_name = name, op_description = description,
                         op_schema = schema, op_handler = handler\<rparr>]))"

text \<open>
  Modelled from the spec: \<open>lookup(name)\<close> of the Registry, the descriptor registered
  under the name or \<open>UnknownOperationError\<close>.
\<close>

fun lookup :: "'n registry \<Rightarrow> string \<Rightarrow> error + 'n descriptor" where
  "lookup [] name = Inl (UnknownOperationError name)"
| "lookup (d # reg) name = (if op_name d = name then Inr d else lookup reg name)"

text \<open>
  The registrations of a module are a sequence of \<open>register\<close> calls; the first one
  that raises ends the sequence, as an exception does.
\<close>

fun register_all :: "'n registry \<Rightarrow> 'n descriptor list \<Rightarrow> error + 'n registry" where
  "register_all reg [] = Inr reg"
| "register_all reg (d # ds) =
     (case register reg (op_name d) (op_description d) (op_schema d) (op_handler d) of
        Inl e \<Rightarrow> Inl e
      | Inr reg' \<Rightarrow> register_all reg' ds)"

section \<open>Dispatcher\<close>

text \<open>
  Modelled from the spec: the Dispatcher (section 4.4), which the repository delegates
  to the protocol library. A request goes through the states
  \<open>RECEIVED \<rightarrow> VALIDATED \<rightarrow> EXECUTING \<rightarrow> SUCCEEDED | FAILED\<close>; the states it went through
  are returned with the response. A failed lookup or validation gives an error response
  without a handler call; a handler that raises is caught and gives an error response;
  a handler's result is wrapped as it is, with the request's correlation id.
\<close>

text \<open>
  Modelled from the spec: the two shapes of a Response (sections 3 and 6), the error
  payload with \<open>isError = true\<close> and the handler's result wrapped unmodified.
\<close>

definition error_response :: "corr_id \<Rightarrow> error \<Rightarrow> response" where
  "error_response i e = \<lparr>resp_id = i, resp_payload = Failure e, resp_isError = Some True\<rparr>"

definition success_response :: "corr_id \<Rightarrow> handler_result \<Rightarrow> response" where
  "success_response i r =
     \<lparr>resp_id = i, resp_payload = Success r, resp_isError = result_isError r\<rparr>"

text \<open>Modelled from the spec: the transitions of the Dispatcher for one request.\<close>

definition dispatch ::
  "'n registry \<Rightarrow> 'n request \<Rightarrow> log \<Rightarrow> (response \<times> dispatch_state list) \<times> log" where
  "dispatch reg req l =
     (case lookup reg (req_op req) of
        Inl e \<Rightarrow> ((error_response (req_id req) e, [RECEIVED, FAILED]), l)
      | Inr d \<Rightarrow>
          (case validate (op_schema d) (req_params req) of
             Inl e \<Rightarrow> ((error_response (req_id req) e, [RECEIVED, FAILED]), l)
           | Inr args \<Rightarrow>
               (case op_handler d args l of
                  (Inl e, l') \<Rightarrow>
                    ((error_response (req_id req) (HandlerError e),
                      [RECEIVED, VALIDATED, EXECUTING, FAILED]), l')
                | (Inr r, l') \<Rightarrow>
                    ((success_response (req_id req) r,
                      [RECEIVED, VALIDATED, EXECUTING,
                       if result_isError r = Some True then FAILED else SUCCEEDED]), l'))))"

text \<open>
  Modelled from the spec: the dispatch loop over the decoded requests of the input
  stream (sections 2 and 4.1). Each response is sent through the transport, that is,
  appended to the messages sent so far.
\<close>

fun serve ::
  "'n registry \<Rightarrow> 'n request list \<Rightarrow> response list \<times> log \<Rightarrow> response list \<times> log" where
  "serve reg [] st = st"
| "serve reg (req # reqs) (sent, l) =
     (case dispatch reg req l of
        ((resp, trace), l') \<Rightarrow> serve reg reqs (sent @ [resp], l'))"

section \<open>The registrations of index.ts and the start of the process\<close>

text \<open>\<open>z.number().describe(d)\<close> and \<open>z.string().describe(d)\<close>: required fields.\<close>

definition z_number :: "string \<Rightarrow> field_spec" where
  "z_number d = \<lparr>ftype = TNumber, required = True, fdescription = d\<rparr>"

definition z_string :: "string \<Rightarrow> field_spec" where
  "z_string d = \<lparr>ftype = TString, required = True, fdescription = d\<rparr>"

text \<open>
  The handlers as they are registered: each takes the validated parameter object and
  destructures it. The last case of each is not reached with validated parameters.
\<close>

definition add_numbers_tool :: "'n number_ops \<Rightarrow> 'n handler" where
  "add_numbers_tool N args l =
     (case (map_of args ''a'', map_of args ''b'') of
        (Some (JNumber a), Some (JNumber b)) \<Rightarrow>
          (case add_numbers N a b l of (r, l') \<Rightarrow> (map_sum id ToolResult r, l'))
      | _ \<Rightarrow> (Inl (Error ''add-numbers: parameters not validated''), l))"

definition meeting_agenda_generator_tool :: "'n handler" where
  "meeting_agenda_generator_tool args l =
     (case (map_of args ''meetingTitle'', map_of args ''participants'', map_of args ''duration'') of
        (Some (JString meetingTitle), Some (JString participants), Some (JString duration)) \<Rightarrow>
          (case meeting_agenda_generator meetingTitle participants duration l of
             (r, l') \<Rightarrow> (map_sum id ToolResult r, l'))
      | _ \<Rightarrow> (Inl (Error ''meeting-agenda-generator: parameters not validated''), l))"

definition story_idea_generator_prompt :: "'n handler" where
  "story_idea_generator_prompt args l =
     (case (map_of args ''topics'', map_of args ''genre'', map_of args ''mood'') of
        (Some (JString topics), Some (JString genre), Some (JString mood)) \<Rightarrow>
          (case story_idea_generator topics genre mood l of
             (r, l') \<Rightarrow> (map_sum id PromptResult r, l'))
      | _ \<Rightarrow> (Inl (Error ''story-idea-generator: parameters not validated''), l))"

definition sample_text_resource :: "string \<Rightarrow> 'n handler" where
  "sample_text_resource sampleText args l =
     (case sample_text sampleText \<lparr>href = ''sample://text''\<rparr> l of
        (r, l') \<Rightarrow> (map_sum id ResourceResult r, l'))"

text \<open>The four registrations (index.ts, lines 85 to 257), in the order of the file.\<close>

definition add_numbers_descriptor :: "'n number_ops \<Rightarrow> 'n descriptor" where
  "add_numbers_descriptor N =
     \<lparr>op_name = ''add-numbers'',
      op_description = ''For any addition operation to add two numbers together'',
      op_schema = [(''a'', z_number ''First number to add''),
                   (''b'', z_number ''Second number to add'')],
      op_handler = add_numbers_tool N\<rparr>"

definition meeting_agenda_generator_descriptor :: "'n descriptor" where
  "meeting_agenda_generator_descriptor =
     \<lparr>op_name = ''meeting-agenda-generator'',
      op_description = ''Creates a prompt for generating a structured meeting agenda. User must provide meetingTitle, participants, and duration. If any are missing, ask the user to provide them.'',
      op_schema = [(''meetingTitle'', z_string ''Title or purpose of the meeting''),
                   (''participants'', z_string ''Who will attend the meeting (roles or names)''),
                   (''duration'',
                    z_string ''Expected duration of the meeting (e.g., '30 minutes', '1 hour')'')],
      op_handler = meeting_agenda_generator_tool\<rparr>"

definition story_idea_generator_descriptor :: "'n descriptor" where
  "story_idea_generator_descriptor =
     \<lparr>op_name = ''story-idea-generator'',
      op_description = ''Generate creative and engaging story ideas based on provided topics, genre, target audience, and mood'',
      op_schema = [(''topics'',
                    z_string ''Comma-separated list of topics or themes to incorporate into the story''),
                   (''genre'',
                    z_string ''Preferred genre for the story (fantasy, sci-fi, mystery, etc.)''),
                   (''mood'',
                    z_string ''Emotional tone of the story (dark, uplifting, humorous, etc.)'')],
      op_handler = story_idea_generator_prompt\<rparr>"

definition sample_text_descriptor :: "string \<Rightarrow> 'n descriptor" where
  "sample_text_descriptor sampleText =
     \<lparr>op_name = ''sample-text'',
      op_description = [],
      op_schema = [],
      op_handler = sample_text_resource sampleText\<rparr>"

definition registrations :: "'n number_ops \<Rightarrow> string \<Rightarrow> 'n descriptor list" where
  "registrations N sampleText =
     [add_numbers_descriptor N, meeting_agenda_generator_descriptor,
      story_idea_generator_descriptor, sample_text_descriptor sampleText]"

text \<open>
  The module from top to bottom: the registrations run first, outside any \<open>try\<close>, then
  \<open>main()\<close> is called. A registration that raises leaves the module as an uncaught
  exception: \<open>main\<close> is never called, the runtime reports the exception on standard
  error and the process ends with exit code 1. The registry is handed to the dispatcher
  (\<open>Some reg\<close>) only when the server is running.
\<close>

definition startup ::
  "'n descriptor list \<Rightarrow> (js_error + 't) \<Rightarrow> ('t \<Rightarrow> js_error + unit) \<Rightarrow> log \<Rightarrow>
     (outcome \<times> log) \<times> 'n registry option" where
  "startup ds newTransport connect l =
     (case register_all [] ds of
        Inl e \<Rightarrow> ((Exit 1, l @ [UncaughtException e]), None)
      | Inr reg \<Rightarrow>
          (case main newTransport connect l of
             (Running, l') \<Rightarrow> ((Running, l'), Some reg)
           | (Exit c, l') \<Rightarrow> ((Exit c, l'), None)))"

definition index_ts ::
  "'n number_ops \<Rightarrow> string \<Rightarrow> (js_error + 't) \<Rightarrow> ('t \<Rightarrow> js_error + unit) \<Rightarrow> log \<Rightarrow>
     (outcome \<times> log) \<times> 'n registry option" where
  "index_ts N sampleText = startup (registrations N sampleText)"

text \<open>Calling a handler \<open>n\<close> times in a row, the diagnostic channel threaded through.\<close>

fun invoke_times :: "nat \<Rightarrow> (log \<Rightarrow> 'r \<times> log) \<Rightarrow> log \<Rightarrow> 'r list \<times> log" where
  "invoke_times 0 h l = ([], l)"
| "invoke_times (Suc n) h l =
     (case h l of (r, l') \<Rightarrow> (case invoke_times n h l' of (rs, l'') \<Rightarrow> (r # rs, l'')))"

section \<open>Properties of the handlers\<close>

declare digits.simps [simp del] bit_length.simps [simp del]

lemma add_numbers_eq:
  "add_numbers N a b l =
     (Inr \<lparr>content =
             [\<lparr>ctype = ''text'',
               ctext = ''The sum of '' @ num_toString N a @ '' and '' @ num_toString N b
                         @ '' is '' @ num_toString N (num_add N a b)\<rparr>],
           isError = None\<rparr>, l)"
  by (simp add: add_numbers_def Let_def)

lemma sample_text_try_eq:
  "sample_text_try sampleText uri l =
     (Inr \<lparr>contents = [\<lparr>ruri = href uri, rtext = sampleText\<rparr>], risError = None\<rparr>,
      l @ [ConsoleError [LStr ''[Resource] Successfully loaded sample text content'']])"
  by (simp add: sample_text_try_def Let_def console_error_def)

lemma sample_text_eq:
  "sample_text sampleText uri l =
     (Inr \<lparr>contents = [\<lparr>ruri = href uri, rtext = sampleText\<rparr>], risError = None\<rparr>,
      l @ [ConsoleError [LStr ''[Resource] Providing sample text content''],
           ConsoleError [LStr ''[Resource] Successfully loaded sample text content'']])"
  by (simp add: sample_text_def sample_text_try_eq Let_def console_error_def)

lemma fst_invoke_times_const:
  "(\<And>l. fst (h l) = r) \<Longrightarrow> fst (invoke_times n h l) = replicate n r"
proof (induction n arbitrary: l)
  case 0
  then show ?case by simp
next
  case (Suc n)
  obtain r' l' where h: "h l = (r', l')" by (cases "h l")
  obtain rs l'' where i: "invoke_times n h l' = (rs, l'')" by (cases "invoke_times n h l'")
  have "r' = r" using Suc.prems [of l] h by simp
  moreover have "rs = replicate n r" using Suc.IH [OF Suc.prems, of l'] i by simp
  ultimately show ?case using h i by simp
qed

lemma round_double_safe: "isSafeInteger x \<Longrightarrow> round_double x = x"
  by (auto simp add: round_double_def isSafeInteger_def Let_def)

lemma round_double_tie: "round_double 9007199254740993 = 9007199254740992"
  by (simp add: round_double_def Let_def bit_length.simps)

text \<open>
  C7. The add-numbers handler is a pure function of its parameters: called \<open>n\<close> times
  in a row with the same \<open>a\<close> and \<open>b\<close>, every call gives the result the handler gives
  in any other state \<open>l0\<close> of the diagnostic channel, and the calls leave the channel as
  it was.
\<close>

theorem add_numbers_pure:
  "invoke_times n (add_numbers N a b) l = (replicate n (fst (add_numbers N a b l0)), l)"
  by (induction n) (simp_all add: add_numbers_eq)

text \<open>
  C10. For all numbers \<open>a\<close> and \<open>b\<close> the add-numbers handler resolves (it has no error
  path) to a result with exactly one content block, of type "text", and without an
  isError flag.
\<close>

theorem add_numbers_one_text_block:
  "\<exists>r. add_numbers N a b l = (Inr r, l) \<and> length (content r) = 1 \<and>
       map ctype (content r) = [''text''] \<and> isError r = None"
  by (simp add: add_numbers_eq)

text \<open>
  C8. Every call of the sample-text resource handler, with any uri and in any state of
  the process, returns one content entry whose text is the constant \<open>sampleText\<close>; so
  do all of \<open>n\<close> calls in a row, although each call writes to the diagnostic channel.
\<close>

theorem sample_text_fixed_text:
  "(\<exists>r l'. sample_text sampleText uri l = (Inr r, l') \<and>
            map rtext (contents r) = [sampleText]) \<and>
   fst (invoke_times n (sample_text sampleText uri) l) =
     replicate n (Inr \<lparr>contents = [\<lparr>ruri = href uri, rtext = sampleText\<rparr>],
                       risError = None\<rparr>)"
proof
  show "\<exists>r l'. sample_text sampleText uri l = (Inr r, l') \<and>
              map rtext (contents r) = [sampleText]"
    by (simp add: sample_text_eq)
  show "fst (invoke_times n (sample_text sampleText uri) l) =
          replicate n (Inr \<lparr>contents = [\<lparr>ruri = href uri, rtext = sampleText\<rparr>],
                            risError = None\<rparr>)"
    by (rule fst_invoke_times_const) (simp add: sample_text_eq)
qed

text \<open>
  C9. The \<open>try\<close> block of the sample-text resource handler never throws, for any uri,
  so the \<open>catch\<close> branch is not reached: the handler resolves to a result without an
  isError flag.
\<close>

theorem sample_text_catch_unreachable:
  "(\<forall>e l'. sample_text_try sampleText uri l \<noteq> (Inl e, l')) \<and>
   (\<exists>r l'. sample_text sampleText uri l = (Inr r, l') \<and> risError r = None)"
  by (simp add: sample_text_try_eq sample_text_eq)

section \<open>Properties of the Schema Validator\<close>

lemma set_check_field:
  "vfield ` set (check_field input fs) =
     (if (case map_of input (fst fs) of
            None \<Rightarrow> required (snd fs)
          | Some v \<Rightarrow> type_of v \<noteq> ftype (snd fs))
      then {fst fs} else {})"
  by (simp add: check_field_def split: option.splits)

lemma violated_Nil: "violated [] input f = False"
  by (simp add: violated_def)

lemma violated_Cons:
  "violated (fs # rest) input f \<longleftrightarrow>
     (fst fs = f \<and>
      (case map_of input f of
         None \<Rightarrow> required (snd fs)
       | Some v \<Rightarrow> type_of v \<noteq> ftype (snd fs)))
     \<or> violated rest input f"
  by (simp add: violated_def)

lemma set_violations: "vfield ` set (violations schema input) = {f. violated schema input f}"
proof (induction schema)
  case Nil
  then show ?case by (simp add: violated_Nil)
next
  case (Cons fs rest)
  have "vfield ` set (violations (fs # rest) input) =
          vfield ` set (check_field input fs) \<union> {f. violated rest input f}"
    using Cons.IH by (simp add: image_Un)
  also have "\<dots> = {f. violated (fs # rest) input f}"
    by (auto simp: set_check_field violated_Cons split: if_splits)
  finally show ?case .
qed

lemma violated_declared: "violated schema input f \<Longrightarrow> f \<in> fst ` set schema"
  by (auto simp: violated_def list_ex_iff)

lemma set_violated_fields: "set (violated_fields schema input) = {f. violated schema input f}"
  by (auto simp: violated_fields_def dest: violated_declared)

section \<open>Properties of the Registry\<close>

lemma descriptor_eta:
  "\<lparr>op_name = op_name d, op_description = op_description d,
    op_schema = op_schema d, op_handler = op_handler d\<rparr> = (d :: 'n descriptor)"
  by simp

lemma register_descriptor:
  "register reg (op_name d) (op_description d) (op_schema d) (op_handler d) =
     (if op_name d \<in> set (map op_name reg) then Inl (DuplicateOperationError (op_name d))
      else Inr (reg @ [d]))"
  unfolding register_def descriptor_eta ..

lemma register_all_Cons:
  "register_all reg (d # ds) =
     (if op_name d \<in> set (map op_name reg) then Inl (DuplicateOperationError (op_name d))
      else register_all (reg @ [d]) ds)"
  by (simp add: register_descriptor)

lemma register_all_distinct:
  "distinct (map op_name (reg @ ds)) \<Longrightarrow> register_all reg ds = Inr (reg @ ds)"
proof (induction ds arbitrary: reg)
  case Nil
  then show ?case by simp
next
  case (Cons d ds)
  from Cons.prems have new: "op_name d \<notin> set (map op_name reg)" by auto
  from Cons.prems have "distinct (map op_name ((reg @ [d]) @ ds))" by auto
  then have "register_all (reg @ [d]) ds = Inr ((reg @ [d]) @ ds)" by (rule Cons.IH)
  with new show ?case by (simp add: register_all_Cons del: register_all.simps)
qed

lemma register_all_Inr:
  "register_all reg ds = Inr reg' \<Longrightarrow> distinct (map op_name reg) \<Longrightarrow>
     reg' = reg @ ds \<and> distinct (map op_name reg')"
proof (induction ds arbitrary: reg)
  case Nil
  then show ?case by simp
next
  case (Cons d ds)
  from Cons.prems(1) have new: "op_name d \<notin> set (map op_name reg)"
    by (auto simp: register_all_Cons simp del: register_all.simps split: if_splits)
  with Cons.prems(1) have step: "register_all (reg @ [d]) ds = Inr reg'"
    by (simp add: register_all_Cons del: register_all.simps)
  have "distinct (map op_name (reg @ [d]))" using new Cons.prems(2) by simp
  with step have "reg' = (reg @ [d]) @ ds \<and> distinct (map op_name reg')" by (rule Cons.IH)
  then have "reg' = reg @ d # ds" and "distinct (map op_name reg')"
    by (simp, rule conjunct2)
  then show ?case by (rule conjI)
qed

lemma register_all_Inl:
  "register_all reg ds = Inl e \<Longrightarrow> \<exists>n. e = DuplicateOperationError n"
proof (induction ds arbitrary: reg)
  case Nil
  then show ?case by simp
next
  case (Cons d ds)
  show ?case
  proof (cases "op_name d \<in> set (map op_name reg)")
    case True
    with Cons.prems show ?thesis by (auto simp: register_all_Cons simp del: register_all.simps)
  next
    case False
    with Cons.prems have "register_all (reg @ [d]) ds = Inl e"
      by (simp add: register_all_Cons del: register_all.simps)
    then show ?thesis by (rule Cons.IH)
  qed
qed

lemma register_all_duplicate:
  assumes "\<not> distinct (map op_name ds)"
  shows "\<exists>n. register_all [] ds = Inl (DuplicateOperationError n)"
proof (cases "register_all [] ds")
  case (Inl e)
  then show ?thesis using register_all_Inl by blast
next
  case (Inr reg')
  then have "reg' = [] @ ds \<and> distinct (map op_name reg')" by (rule register_all_Inr) simp
  with assms show ?thesis by auto
qed

lemma registrations_names:
  "map op_name (registrations N sampleText) =
     [''add-numbers'', ''meeting-agenda-generator'', ''story-idea-generator'', ''sample-text'']"
  by (simp add: registrations_def add_numbers_descriptor_def
      meeting_agenda_generator_descriptor_def story_idea_generator_descriptor_def
      sample_text_descriptor_def)

lemma registrations_ok:
  "register_all [] (registrations N sampleText) = Inr (registrations N sampleText)"
  using register_all_distinct [of "[]" "registrations N sampleText"]
  by (simp add: registrations_names)

lemma lookup_unknown:
  "name \<notin> set (map op_name reg) \<Longrightarrow> lookup reg name = Inl (UnknownOperationError name)"
  by (induction reg) auto

section \<open>Properties of the Dispatcher and of the start of the process\<close>

lemma dispatch_resp_id: "resp_id (fst (fst (dispatch reg req l))) = req_id req"
  by (simp add: dispatch_def error_response_def success_response_def
      split: sum.splits prod.splits)

lemma serve_ids:
  "map resp_id (fst (serve reg reqs (sent, l))) = map resp_id sent @ map req_id reqs"
proof (induction reqs arbitrary: sent l)
  case Nil
  then show ?case by simp
next
  case (Cons req reqs)
  obtain resp trace l' where d: "dispatch reg req l = ((resp, trace), l')"
    by (metis prod.exhaust)
  have "resp_id resp = req_id req" using dispatch_resp_id [of reg req l] d by simp
  with Cons.IH [of "sent @ [resp]" l'] d show ?case by simp
qed

text \<open>
  The loop sends what \<open>dispatch\<close> answers: one step of \<open>serve\<close> appends the response
  of \<open>dispatch\<close> and goes on in the state \<open>dispatch\<close> left; what was sent stays sent;
  every response sent carries the flag that belongs to its payload.
\<close>

lemma serve_Cons:
  "serve reg (req # reqs) (sent, l) =
     serve reg reqs (sent @ [fst (fst (dispatch reg req l))], snd (dispatch reg req l))"
  by (simp split: prod.splits)

lemma serve_append:
  "serve reg reqs (sent, l) =
     (sent @ fst (serve reg reqs ([], l)), snd (serve reg reqs ([], l)))"
proof (induction reqs arbitrary: sent l)
  case Nil
  then show ?case by simp
next
  case (Cons req reqs)
  let ?resp = "fst (fst (dispatch reg req l))"
  let ?l' = "snd (dispatch reg req l)"
  have a: "serve reg reqs (sent @ [?resp], ?l') =
             ((sent @ [?resp]) @ fst (serve reg reqs ([], ?l')), snd (serve reg reqs ([], ?l')))"
    by (rule Cons.IH)
  have b: "serve reg reqs ([] @ [?resp], ?l') =
             (([] @ [?resp]) @ fst (serve reg reqs ([], ?l')), snd (serve reg reqs ([], ?l')))"
    by (rule Cons.IH)
  show ?case
    unfolding serve_Cons [of reg req reqs sent l] serve_Cons [of reg req reqs "[]" l] a b
    by simp
qed

lemma dispatch_flag:
  "(case resp_payload (fst (fst (dispatch reg req l))) of
      Failure e \<Rightarrow> resp_isError (fst (fst (dispatch reg req l))) = Some True
    | Success r \<Rightarrow> resp_isError (fst (fst (dispatch reg req l))) = result_isError r)"
  by (simp add: dispatch_def error_response_def success_response_def
      split: sum.splits prod.splits)

lemma serve_flags:
  "list_all (\<lambda>resp. case resp_payload resp of
                       Failure e \<Rightarrow> resp_isError resp = Some True
                     | Success r \<Rightarrow> resp_isError resp = result_isError r)
     (fst (serve reg reqs ([], l)))"
proof (induction reqs arbitrary: l)
  case Nil
  then show ?case by simp
next
  case (Cons req reqs)
  let ?resp = "fst (fst (dispatch reg req l))"
  let ?l' = "snd (dispatch reg req l)"
  have "fst (serve reg (req # reqs) ([], l)) = [?resp] @ fst (serve reg reqs ([], ?l'))"
    unfolding serve_Cons [of reg req reqs "[]" l]
    using serve_append [of reg reqs "[] @ [?resp]" ?l'] by simp
  then show ?case using dispatch_flag [of reg req l] Cons.IH [of ?l'] by simp
qed

text \<open>
  Parameters that passed validation against the schema of add-numbers hold a number
  under \<open>a\<close> and under \<open>b\<close>, so the registered handler is the typed one: the last
  case of \<open>add_numbers_tool\<close> is not reached behind the validator.
\<close>

lemma type_of_TNumber: "type_of v = TNumber \<Longrightarrow> \<exists>x. v = JNumber x"
  by (cases v) simp_all

lemma validate_Inr: "validate schema input = Inr args \<Longrightarrow> args = input \<and> violations schema input = []"
  by (simp add: validate_def split: list.splits)

lemma add_numbers_tool_validated:
  assumes "validate (op_schema (add_numbers_descriptor N)) input = Inr args"
  shows "\<exists>a b. map_of args ''a'' = Some (JNumber a) \<and> map_of args ''b'' = Some (JNumber b) \<and>
           add_numbers_tool N args l = (map_sum id ToolResult (fst (add_numbers N a b l)), l)"
proof -
  from assms have args: "args = input"
    and v: "violations (op_schema (add_numbers_descriptor N)) input = []"
    using validate_Inr by blast+
  from v have "\<exists>va. map_of input ''a'' = Some va \<and> type_of va = TNumber"
    by (simp add: add_numbers_descriptor_def check_field_def z_number_def
        split: option.splits if_splits)
  then obtain a where a: "map_of input ''a'' = Some (JNumber a)"
    using type_of_TNumber by blast
  from v have "\<exists>vb. map_of input ''b'' = Some vb \<and> type_of vb = TNumber"
    by (simp add: add_numbers_descriptor_def check_field_def z_number_def
        split: option.splits if_splits)
  then obtain b where b: "map_of input ''b'' = Some (JNumber b)"
    using type_of_TNumber by blast
  from a b args show ?thesis
    by (simp add: add_numbers_tool_def add_numbers_eq)
qed

lemma main_cases:
  "main newTransport connect l =
     (case newTransport of
        Inl err \<Rightarrow>
          (Exit 1,
           l @ [ConsoleError [LStr ''MCP Template Server starting...''],
                ConsoleError [LStr ''Error starting MCP Template Server:'', LErr err]])
      | Inr t \<Rightarrow>
          (case connect t of
             Inl err \<Rightarrow>
               (Exit 1,
                l @ [ConsoleError [LStr ''MCP Template Server starting...''],
                     ConsoleError [LStr ''Error starting MCP Template Server:'', LErr err]])
           | Inr _ \<Rightarrow>
               (Running,
                l @ [ConsoleError [LStr ''MCP Template Server starting...''],
                     ConsoleError [LStr ''MCP Template Server running...'']])))"
  by (simp add: main_def Let_def console_error_def split: sum.splits)

lemma dispatch_add_2_3:
  "dispatch (registrations integer_numbers sampleText)
     \<lparr>req_id = IdString ''1'', req_op = ''add-numbers'',
      req_params = [(''a'', JNumber 2), (''b'', JNumber 3)]\<rparr> l =
   ((\<lparr>resp_id = IdString ''1'',
      resp_payload =
        Success (ToolResult
          \<lparr>content = [\<lparr>ctype = ''text'', ctext = ''The sum of 2 and 3 is 5''\<rparr>],
           isError = None\<rparr>),
      resp_isError = None\<rparr>,
     [RECEIVED, VALIDATED, EXECUTING, SUCCEEDED]), l)"
  by (simp add: dispatch_def registrations_def add_numbers_descriptor_def validate_def
      check_field_def z_number_def add_numbers_tool_def add_numbers_eq success_response_def
      integer_numbers_def int_toString_def digits.simps round_double_def Let_def)

section \<open>The sum, the validator, the registry and the dispatcher at work\<close>

text \<open>
  C1, as the code has it. For all numbers \<open>a\<close> and \<open>b\<close> the add-numbers handler
  resolves to a result whose text is "The sum of <a> and <b> is <s>", where \<open>s\<close> is the
  JavaScript sum \<open>a + b\<close>, a double; on the integer-valued numbers \<open>s\<close> is the
  arithmetic sum whenever \<open>a\<close>, \<open>b\<close> and \<open>a + b\<close> are safe integers; and the request
  \<open>{id: "1", op: "add-numbers", params: {a: 2, b: 3}}\<close> is answered by
  \<open>{id: "1", content: [{type: "text", text: "The sum of 2 and 3 is 5"}]}\<close>.
\<close>

theorem add_numbers_sum_text:
  "add_numbers N a b l =
     (Inr \<lparr>content =
             [\<lparr>ctype = ''text'',
               ctext = ''The sum of '' @ num_toString N a @ '' and '' @ num_toString N b
                         @ '' is '' @ num_toString N (num_add N a b)\<rparr>],
           isError = None\<rparr>, l) \<and>
   (isSafeInteger x \<and> isSafeInteger y \<and> isSafeInteger (x + y) \<longrightarrow>
      add_numbers integer_numbers x y l =
        (Inr \<lparr>content =
                [\<lparr>ctype = ''text'',
                  ctext = ''The sum of '' @ int_toString x @ '' and '' @ int_toString y
                            @ '' is '' @ int_toString (x + y)\<rparr>],
              isError = None\<rparr>, l)) \<and>
   fst (fst (dispatch (registrations integer_numbers sampleText)
               \<lparr>req_id = IdString ''1'', req_op = ''add-numbers'',
                req_params = [(''a'', JNumber 2), (''b'', JNumber 3)]\<rparr> l)) =
     \<lparr>resp_id = IdString ''1'',
      resp_payload =
        Success (ToolResult
          \<lparr>content = [\<lparr>ctype = ''text'', ctext = ''The sum of 2 and 3 is 5''\<rparr>],
           isError = None\<rparr>),
      resp_isError = None\<rparr>"
proof (intro conjI impI)
  show "add_numbers N a b l =
     (Inr \<lparr>content =
             [\<lparr>ctype = ''text'',
               ctext = ''The sum of '' @ num_toString N a @ '' and '' @ num_toString N b
                         @ '' is '' @ num_toString N (num_add N a b)\<rparr>],
           isError = None\<rparr>, l)"
    by (rule add_numbers_eq)
next
  assume "isSafeInteger x \<and> isSafeInteger y \<and> isSafeInteger (x + y)"
  then have "round_double (x + y) = x + y" by (simp add: round_double_safe)
  then show "add_numbers integer_numbers x y l =
        (Inr \<lparr>content =
                [\<lparr>ctype = ''text'',
                  ctext = ''The sum of '' @ int_toString x @ '' and '' @ int_toString y
                            @ '' is '' @ int_toString (x + y)\<rparr>],
              isError = None\<rparr>, l)"
    by (simp add: add_numbers_eq integer_numbers_def)
next
  show "fst (fst (dispatch (registrations integer_numbers sampleText)
               \<lparr>req_id = IdString ''1'', req_op = ''add-numbers'',
                req_params = [(''a'', JNumber 2), (''b'', JNumber 3)]\<rparr> l)) =
     \<lparr>resp_id = IdString ''1'',
      resp_payload =
        Success (ToolResult
          \<lparr>content = [\<lparr>ctype = ''text'', ctext = ''The sum of 2 and 3 is 5''\<rparr>],
           isError = None\<rparr>),
      resp_isError = None\<rparr>"
    by (simp only: dispatch_add_2_3 fst_conv)
qed

text \<open>The operands \<open>2\<close> and \<open>3\<close> and their sum are safe integers.\<close>

theorem add_numbers_sum_text_witness:
  "isSafeInteger 2 \<and> isSafeInteger 3 \<and> isSafeInteger (2 + 3) \<and>
   add_numbers integer_numbers 2 3 [] =
     (Inr \<lparr>content = [\<lparr>ctype = ''text'', ctext = ''The sum of 2 and 3 is 5''\<rparr>],
           isError = None\<rparr>, [])"
  using add_numbers_sum_text
          [where N = integer_numbers and a = 2 and b = 3 and x = 2 and y = 3
             and l = "[]" and sampleText = "[]", THEN conjunct2, THEN conjunct1]
  by (simp add: isSafeInteger_def int_toString_def digits.simps)

text \<open>
  The sum is not always the arithmetic one: \<open>9007199254740991\<close> and \<open>2\<close> are safe
  integers, their arithmetic sum \<open>9007199254740993\<close> is not a double, and the handler
  answers with the rounded sum \<open>9007199254740992\<close>.
\<close>

theorem add_numbers_sum_counterexample:
  "isSafeInteger 9007199254740991 \<and> isSafeInteger 2 \<and>
   add_numbers integer_numbers 9007199254740991 2 [] =
     (Inr \<lparr>content =
             [\<lparr>ctype = ''text'',
               ctext = ''The sum of 9007199254740991 and 2 is 9007199254740992''\<rparr>],
           isError = None\<rparr>, []) \<and>
   add_numbers integer_numbers 9007199254740991 2 [] \<noteq>
     (Inr \<lparr>content =
             [\<lparr>ctype = ''text'',
               ctext = ''The sum of '' @ int_toString 9007199254740991 @ '' and '' @
                       int_toString 2 @ '' is '' @ int_toString (9007199254740991 + 2)\<rparr>],
           isError = None\<rparr>, [])"
  by (simp add: add_numbers_eq integer_numbers_def round_double_tie isSafeInteger_def
      int_toString_def digits.simps)

text \<open>
  C2. If the parameter object violates no declared field, validation returns the input
  object as it is; otherwise it fails with a \<open>ValidationError\<close> whose violation list
  names every violated field (each missing required field and each field of the wrong
  type), not only the first one.
\<close>

theorem validate_reports_all_violations:
  "(violated_fields schema input = [] \<longrightarrow> validate schema input = Inr input) \<and>
   (violated_fields schema input \<noteq> [] \<longrightarrow>
      (\<exists>vs. validate schema input = Inl (ValidationError vs) \<and>
            set (map vfield vs) = set (violated_fields schema input)))"
proof -
  have eq: "vfield ` set (violations schema input) = set (violated_fields schema input)"
    by (simp add: set_violations set_violated_fields)
  show ?thesis
  proof (cases "violations schema input")
    case Nil
    with eq have "violated_fields schema input = []" by simp
    with Nil show ?thesis by (simp add: validate_def)
  next
    case (Cons v vs)
    with eq have "violated_fields schema input \<noteq> []" by auto
    moreover have "validate schema input = Inl (ValidationError (v # vs))"
      using Cons by (simp add: validate_def)
    ultimately show ?thesis using eq Cons by auto
  qed
qed

text \<open>
  On the schema of add-numbers: \<open>{a: "x", c: 1}\<close> violates both \<open>a\<close> (wrong type) and
  \<open>b\<close> (missing) and both are reported; \<open>{a: 2, b: 3, c: null}\<close> violates nothing and
  is returned unchanged.
\<close>

theorem validate_reports_all_violations_witness:
  "violated_fields (op_schema (add_numbers_descriptor integer_numbers))
     [(''a'', JString ''x''), (''c'', JNumber (1::int))] = [''a'', ''b''] \<and>
   validate (op_schema (add_numbers_descriptor integer_numbers))
     [(''a'', JString ''x''), (''c'', JNumber (1::int))] =
     Inl (ValidationError
           [\<lparr>vfield = ''a'', vexpected = TNumber, vreason = TypeMismatch\<rparr>,
            \<lparr>vfield = ''b'', vexpected = TNumber, vreason = Missing\<rparr>]) \<and>
   violated_fields (op_schema (add_numbers_descriptor integer_numbers))
     [(''a'', JNumber (2::int)), (''b'', JNumber 3), (''c'', JNull)] = [] \<and>
   validate (op_schema (add_numbers_descriptor integer_numbers))
     [(''a'', JNumber (2::int)), (''b'', JNumber 3), (''c'', JNull)] =
     Inr [(''a'', JNumber 2), (''b'', JNumber 3), (''c'', JNull)]"
  using validate_reports_all_violations
          [of "op_schema (add_numbers_descriptor integer_numbers)"
              "[(''a'', JString ''x''), (''c'', JNumber (1::int))]"]
        validate_reports_all_violations
          [of "op_schema (add_numbers_descriptor integer_numbers)"
              "[(''a'', JNumber (2::int)), (''b'', JNumber 3), (''c'', JNull)]"]
  by (simp add: violated_fields_def violated_def validate_def check_field_def
      add_numbers_descriptor_def z_number_def)

text \<open>
  C3. For every request whose operation name is not registered, the Dispatcher answers
  with a response that has \<open>isError = true\<close>, carries the kind
  \<open>UnknownOperationError\<close> and the request's id; the request goes from \<open>RECEIVED\<close>
  to \<open>FAILED\<close> without \<open>EXECUTING\<close>, the diagnostic channel is untouched and the
  answer does not depend on any handler: no handler is invoked.
\<close>

theorem dispatch_unknown_operation:
  "req_op req \<notin> set (map op_name reg) \<Longrightarrow>
     dispatch reg req l =
       ((\<lparr>resp_id = req_id req,
          resp_payload = Failure (UnknownOperationError (req_op req)),
          resp_isError = Some True\<rparr>,
         [RECEIVED, FAILED]), l)"
  by (simp add: dispatch_def lookup_unknown error_response_def)

text \<open>The request \<open>{id: "3", op: "nonexistent-op", params: {}}\<close> on the registry of index.ts.\<close>

theorem dispatch_unknown_operation_witness:
  "''nonexistent-op'' \<notin> set (map op_name (registrations integer_numbers ''sample'')) \<and>
   dispatch (registrations integer_numbers ''sample'')
     \<lparr>req_id = IdString ''3'', req_op = ''nonexistent-op'', req_params = []\<rparr> [] =
     ((\<lparr>resp_id = IdString ''3'',
        resp_payload = Failure (UnknownOperationError ''nonexistent-op''),
        resp_isError = Some True\<rparr>,
       [RECEIVED, FAILED]), [])"
proof -
  have h: "req_op \<lparr>req_id = IdString ''3'', req_op = ''nonexistent-op'',
                   req_params = ([] :: int params)\<rparr>
             \<notin> set (map op_name (registrations integer_numbers ''sample''))"
    by (simp add: registrations_names)
  show ?thesis
    using dispatch_unknown_operation [OF h, of "[]"] by (simp add: registrations_names)
qed

text \<open>
  C4. For every request that reaches a handler: if the handler raises, the Dispatcher
  catches the error and answers with \<open>isError = true\<close>, the kind \<open>HandlerError\<close> and
  the request's id; if the handler returns a result flagged as an error, the response
  carries it with \<open>isError = true\<close> and the request's id. Every response has the id of
  its request, whatever the registry and the handlers do, and the dispatch loop sends
  exactly one response per request, with the ids of the requests. The reply the loop
  sends for a request is the response of the Dispatcher: after the replies already
  sent, the caller receives that error response, then the replies to the requests that
  follow, so no per-request error ends the loop; and every reply with an error payload
  is sent with \<open>isError = true\<close>.
\<close>

theorem dispatch_handler_error_delivered:
  "(lookup reg (req_op req) = Inr d \<and> validate (op_schema d) (req_params req) = Inr args \<and>
    op_handler d args l = (Inl e, l') \<longrightarrow>
      dispatch reg req l =
        ((\<lparr>resp_id = req_id req, resp_payload = Failure (HandlerError e),
           resp_isError = Some True\<rparr>,
          [RECEIVED, VALIDATED, EXECUTING, FAILED]), l')) \<and>
   (lookup reg (req_op req) = Inr d \<and> validate (op_schema d) (req_params req) = Inr args \<and>
    op_handler d args l = (Inr r, l') \<and> result_isError r = Some True \<longrightarrow>
      dispatch reg req l =
        ((\<lparr>resp_id = req_id req, resp_payload = Success r, resp_isError = Some True\<rparr>,
          [RECEIVED, VALIDATED, EXECUTING, FAILED]), l')) \<and>
   resp_id (fst (fst (dispatch reg req l))) = req_id req \<and>
   map resp_id (fst (serve reg reqs (sent, l))) = map resp_id sent @ map req_id reqs \<and>
   (lookup reg (req_op req) = Inr d \<and> validate (op_schema d) (req_params req) = Inr args \<and>
    op_handler d args l = (Inl e, l') \<longrightarrow>
      fst (serve reg (req # reqs) (sent, l)) =
        sent @
        [\<lparr>resp_id = req_id req, resp_payload = Failure (HandlerError e),
          resp_isError = Some True\<rparr>] @
        fst (serve reg reqs ([], l'))) \<and>
   (lookup reg (req_op req) = Inr d \<and> validate (op_schema d) (req_params req) = Inr args \<and>
    op_handler d args l = (Inr r, l') \<and> result_isError r = Some True \<longrightarrow>
      fst (serve reg (req # reqs) (sent, l)) =
        sent @
        [\<lparr>resp_id = req_id req, resp_payload = Success r, resp_isError = Some True\<rparr>] @
        fst (serve reg reqs ([], l'))) \<and>
   serve reg (req # reqs) (sent, l) =
     serve reg reqs (sent @ [fst (fst (dispatch reg req l))], snd (dispatch reg req l)) \<and>
   length (fst (serve reg reqs (sent, l))) = length sent + length reqs \<and>
   list_all (\<lambda>resp. case resp_payload resp of
                       Failure e \<Rightarrow> resp_isError resp = Some True
                     | Success r \<Rightarrow> resp_isError resp = result_isError r)
     (fst (serve reg reqs ([], l)))"
proof (intro conjI impI)
  assume "lookup reg (req_op req) = Inr d \<and>
          validate (op_schema d) (req_params req) = Inr args \<and>
          op_handler d args l = (Inl e, l')"
  then show "dispatch reg req l =
        ((\<lparr>resp_id = req_id req, resp_payload = Failure (HandlerError e),
           resp_isError = Some True\<rparr>,
          [RECEIVED, VALIDATED, EXECUTING, FAILED]), l')"
    by (simp add: dispatch_def error_response_def)
next
  assume "lookup reg (req_op req) = Inr d \<and>
          validate (op_schema d) (req_params req) = Inr args \<and>
          op_handler d args l = (Inr r, l') \<and> result_isError r = Some True"
  then show "dispatch reg req l =
        ((\<lparr>resp_id = req_id req, resp_payload = Success r, resp_isError = Some True\<rparr>,
          [RECEIVED, VALIDATED, EXECUTING, FAILED]), l')"
    by (simp add: dispatch_def success_response_def)
next
  show "resp_id (fst (fst (dispatch reg req l))) = req_id req"
    by (rule dispatch_resp_id)
next
  show "map resp_id (fst (serve reg reqs (sent, l))) = map resp_id sent @ map req_id reqs"
    by (rule serve_ids)
next
  assume "lookup reg (req_op req) = Inr d \<and>
          validate (op_schema d) (req_params req) = Inr args \<and>
          op_handler d args l = (Inl e, l')"
  then have d: "dispatch reg req l =
        ((\<lparr>resp_id = req_id req, resp_payload = Failure (HandlerError e),
           resp_isError = Some True\<rparr>,
          [RECEIVED, VALIDATED, EXECUTING, FAILED]), l')"
    by (simp add: dispatch_def error_response_def)
  show "fst (serve reg (req # reqs) (sent, l)) =
        sent @
        [\<lparr>resp_id = req_id req, resp_payload = Failure (HandlerError e),
          resp_isError = Some True\<rparr>] @
        fst (serve reg reqs ([], l'))"
    unfolding serve_Cons [of reg req reqs sent l] d
    using serve_append
            [of reg reqs
                "sent @ [\<lparr>resp_id = req_id req, resp_payload = Failure (HandlerError e),
                           resp_isError = Some True\<rparr>]" l']
    by simp
next
  assume "lookup reg (req_op req) = Inr d \<and>
          validate (op_schema d) (req_params req) = Inr args \<and>
          op_handler d args l = (Inr r, l') \<and> result_isError r = Some True"
  then have d: "dispatch reg req l =
        ((\<lparr>resp_id = req_id req, resp_payload = Success r, resp_isError = Some True\<rparr>,
          [RECEIVED, VALIDATED, EXECUTING, FAILED]), l')"
    by (simp add: dispatch_def success_response_def)
  show "fst (serve reg (req # reqs) (sent, l)) =
        sent @
        [\<lparr>resp_id = req_id req, resp_payload = Success r, resp_isError = Some True\<rparr>] @
        fst (serve reg reqs ([], l'))"
    unfolding serve_Cons [of reg req reqs sent l] d
    using serve_append
            [of reg reqs
                "sent @ [\<lparr>resp_id = req_id req, resp_payload = Success r,
                           resp_isError = Some True\<rparr>]" l']
    by simp
next
  show "serve reg (req # reqs) (sent, l) =
     serve reg reqs (sent @ [fst (fst (dispatch reg req l))], snd (dispatch reg req l))"
    by (rule serve_Cons)
next
  have "length (map resp_id (fst (serve reg reqs (sent, l)))) =
          length (map resp_id sent @ map req_id reqs)"
    by (simp only: serve_ids)
  then show "length (fst (serve reg reqs (sent, l))) = length sent + length reqs"
    by simp
next
  show "list_all (\<lambda>resp. case resp_payload resp of
                       Failure e \<Rightarrow> resp_isError resp = Some True
                     | Success r \<Rightarrow> resp_isError resp = result_isError r)
     (fst (serve reg reqs ([], l)))"
    by (rule serve_flags)
qed

text \<open>
  A handler that raises and a handler that returns an error result; and a loop over two
  requests to the raising handler and one to an unregistered name, which sends the
  three error responses in turn.
\<close>

theorem dispatch_handler_error_delivered_witness:
  "dispatch
     [\<lparr>op_name = ''raises'', op_description = [], op_schema = [],
       op_handler = (\<lambda>(args :: int params) l. (Inl (Error ''boom''), l))\<rparr>]
     \<lparr>req_id = IdNumber 7, req_op = ''raises'', req_params = []\<rparr> [] =
     ((\<lparr>resp_id = IdNumber 7, resp_payload = Failure (HandlerError (Error ''boom'')),
        resp_isError = Some True\<rparr>,
       [RECEIVED, VALIDATED, EXECUTING, FAILED]), []) \<and>
   dispatch
     [\<lparr>op_name = ''returns-error'', op_description = [], op_schema = [],
       op_handler = (\<lambda>(args :: int params) l.
                       (Inr (ToolResult \<lparr>content = [], isError = Some True\<rparr>), l))\<rparr>]
     \<lparr>req_id = IdNumber 8, req_op = ''returns-error'', req_params = []\<rparr> [] =
     ((\<lparr>resp_id = IdNumber 8,
        resp_payload = Success (ToolResult \<lparr>content = [], isError = Some True\<rparr>),
        resp_isError = Some True\<rparr>,
       [RECEIVED, VALIDATED, EXECUTING, FAILED]), []) \<and>
   fst (serve
     [\<lparr>op_name = ''raises'', op_description = [], op_schema = [],
       op_handler = (\<lambda>(args :: int params) l. (Inl (Error ''boom''), l))\<rparr>]
     [\<lparr>req_id = IdNumber 7, req_op = ''raises'', req_params = []\<rparr>,
      \<lparr>req_id = IdNumber 9, req_op = ''raises'', req_params = []\<rparr>,
      \<lparr>req_id = IdNumber 10, req_op = ''absent'', req_params = []\<rparr>] ([], [])) =
     [\<lparr>resp_id = IdNumber 7, resp_payload = Failure (HandlerError (Error ''boom'')),
       resp_isError = Some True\<rparr>,
      \<lparr>resp_id = IdNumber 9, resp_payload = Failure (HandlerError (Error ''boom'')),
       resp_isError = Some True\<rparr>,
      \<lparr>resp_id = IdNumber 10, resp_payload = Failure (UnknownOperationError ''absent''),
       resp_isError = Some True\<rparr>]"
  using dispatch_handler_error_delivered
          [where reg = "[\<lparr>op_name = ''raises'', op_description = [], op_schema = [],
                           op_handler = (\<lambda>(args :: int params) l. (Inl (Error ''boom''), l))\<rparr>]"
             and req = "\<lparr>req_id = IdNumber 7, req_op = ''raises'', req_params = []\<rparr>"
             and d = "\<lparr>op_name = ''raises'', op_description = [], op_schema = [],
                         op_handler = (\<lambda>(args :: int params) l. (Inl (Error ''boom''), l))\<rparr>"
             and args = "[]" and l = "[]" and l' = "[]" and e = "Error ''boom''"
             and sent = "[]"
             and reqs = "[\<lparr>req_id = IdNumber 9, req_op = ''raises'', req_params = []\<rparr>,
                          \<lparr>req_id = IdNumber 10, req_op = ''absent'', req_params = []\<rparr>]"]
        dispatch_handler_error_delivered
          [where reg = "[\<lparr>op_name = ''returns-error'', op_description = [], op_schema = [],
                           op_handler = (\<lambda>(args :: int params) l.
                             (Inr (ToolResult \<lparr>content = [], isError = Some True\<rparr>), l))\<rparr>]"
             and req = "\<lparr>req_id = IdNumber 8, req_op = ''returns-error'', req_params = []\<rparr>"
             and d = "\<lparr>op_name = ''returns-error'', op_description = [], op_schema = [],
                         op_handler = (\<lambda>(args :: int params) l.
                             (Inr (ToolResult \<lparr>content = [], isError = Some True\<rparr>), l))\<rparr>"
             and args = "[]" and l = "[]" and l' = "[]"
             and r = "ToolResult \<lparr>content = [], isError = Some True\<rparr>",
           THEN conjunct2, THEN conjunct1]
  by (simp add: validate_def dispatch_def error_response_def)

text \<open>
  C5. For every registry and every name present in it, \<open>register\<close> with that name fails
  with \<open>DuplicateOperationError\<close>; with a name not present it inserts the descriptor.
  So a registry with distinct names keeps distinct names, every registry built by the
  registrations at startup has distinct names, a duplicate name among the registrations
  ends the process with exit code 1 before any registry is handed to the dispatcher, and
  the four registrations of index.ts all succeed.
\<close>

theorem register_rejects_duplicates:
  "(name \<in> set (map op_name reg) \<longrightarrow>
      register reg name description schema handler = Inl (DuplicateOperationError name)) \<and>
   (name \<notin> set (map op_name reg) \<longrightarrow>
      register reg name description schema handler =
        Inr (reg @ [\<lparr>op_name = name, op_description = description,
                      op_schema = schema, op_handler = handler\<rparr>])) \<and>
   (distinct (map op_name reg) \<and> register reg name description schema handler = Inr reg' \<longrightarrow>
      distinct (map op_name reg')) \<and>
   (register_all [] ds = Inr reg'' \<longrightarrow> reg'' = ds \<and> distinct (map op_name reg'')) \<and>
   (\<not> distinct (map op_name ds) \<longrightarrow>
      (\<exists>n. startup ds newTransport connect l =
             ((Exit 1, l @ [UncaughtException (DuplicateOperationError n)]), None))) \<and>
   register_all [] (registrations N sampleText) = Inr (registrations N sampleText)"
proof (intro conjI impI)
  show "register_all [] (registrations N sampleText) = Inr (registrations N sampleText)"
    by (rule registrations_ok)
next
  assume "distinct (map op_name reg) \<and>
          register reg name description schema handler = Inr reg'"
  then show "distinct (map op_name reg')"
    by (auto simp: register_def split: if_splits)
next
  assume "register_all [] ds = Inr reg''"
  then have "reg'' = [] @ ds \<and> distinct (map op_name reg'')"
    by (rule register_all_Inr) simp
  then have both: "reg'' = ds \<and> distinct (map op_name reg'')"
    by auto
  from both show "reg'' = ds" by (rule conjunct1)
  from both show "distinct (map op_name reg'')" by (rule conjunct2)
next
  assume "\<not> distinct (map op_name ds)"
  then obtain n where "register_all [] ds = Inl (DuplicateOperationError n)"
    using register_all_duplicate by blast
  then show "\<exists>n. startup ds newTransport connect l =
             ((Exit 1, l @ [UncaughtException (DuplicateOperationError n)]), None)"
    by (simp add: startup_def)
qed (simp_all add: register_def)

text \<open>
  Registering "add-numbers" again on the registry of index.ts fails, registering a new
  name succeeds, and a start with the same resource registered twice ends at once.
\<close>

theorem register_rejects_duplicates_witness:
  "register (registrations integer_numbers ''s'') ''add-numbers'' [] []
     (sample_text_resource ''s'') = Inl (DuplicateOperationError ''add-numbers'') \<and>
   register (registrations integer_numbers ''s'') ''another'' [] []
     (sample_text_resource ''s'') =
     Inr (registrations integer_numbers ''s'' @
          [\<lparr>op_name = ''another'', op_description = [], op_schema = [],
            op_handler = sample_text_resource ''s''\<rparr>]) \<and>
   distinct (map op_name (registrations integer_numbers ''s'' @
          [\<lparr>op_name = ''another'', op_description = [], op_schema = [],
            op_handler = sample_text_resource ''s''\<rparr>])) \<and>
   startup [sample_text_descriptor ''s'', sample_text_descriptor ''t'']
       (Inr ()) (\<lambda>t. Inr ()) [] =
     ((Exit 1, [UncaughtException (DuplicateOperationError ''sample-text'')]),
      (None :: int registry option)) \<and>
   register_all [] (registrations integer_numbers ''s'') =
     Inr (registrations integer_numbers ''s'') \<and>
   distinct (map op_name (registrations integer_numbers ''s''))"
  using register_rejects_duplicates
          [where ds = "registrations integer_numbers ''s''"
             and reg'' = "registrations integer_numbers ''s''"
             and N = integer_numbers and sampleText = "''s''"]
        register_rejects_duplicates
          [where reg = "registrations integer_numbers ''s''" and name = "''add-numbers''"
             and description = "[]" and schema = "[]"
             and handler = "sample_text_resource ''s''", THEN conjunct1]
        register_rejects_duplicates
          [where reg = "registrations integer_numbers ''s''" and name = "''another''"
             and description = "[]" and schema = "[]"
             and handler = "sample_text_resource ''s''"
             and reg' = "registrations integer_numbers ''s'' @
                  [\<lparr>op_name = ''another'', op_description = [], op_schema = [],
                    op_handler = sample_text_resource ''s''\<rparr>]"
             and ds = "[sample_text_descriptor ''s'', sample_text_descriptor ''t'']"
             and newTransport = "Inr ()" and connect = "\<lambda>t. Inr ()" and l = "[]"]
  by (simp add: registrations_names register_def startup_def sample_text_descriptor_def)

text \<open>
  C6. If a registration raises, the exception is reported on the diagnostic channel and
  the process ends with exit code 1; if the construction of the transport or
  \<open>server.connect\<close> raises, \<open>main\<close> logs "Error starting MCP Template Server:" with
  the error as its last message and exits with code 1. If no startup step fails the
  server is running, with the registry in place; that is the case of index.ts itself
  unless the transport fails, since its registrations succeed.
\<close>

theorem startup_failure_exits:
  "(register_all [] ds = Inl e \<longrightarrow>
      startup ds newTransport connect l = ((Exit 1, l @ [UncaughtException e]), None)) \<and>
   (register_all [] ds = Inr reg \<and> newTransport = Inl err \<longrightarrow>
      startup ds newTransport connect l =
        ((Exit 1,
          l @ [ConsoleError [LStr ''MCP Template Server starting...''],
               ConsoleError [LStr ''Error starting MCP Template Server:'', LErr err]]),
         None)) \<and>
   (register_all [] ds = Inr reg \<and> newTransport = Inr t \<and> connect t = Inl err \<longrightarrow>
      startup ds newTransport connect l =
        ((Exit 1,
          l @ [ConsoleError [LStr ''MCP Template Server starting...''],
               ConsoleError [LStr ''Error starting MCP Template Server:'', LErr err]]),
         None)) \<and>
   (register_all [] ds = Inr reg \<and> newTransport = Inr t \<and> connect t = Inr () \<longrightarrow>
      startup ds newTransport connect l =
        ((Running,
          l @ [ConsoleError [LStr ''MCP Template Server starting...''],
               ConsoleError [LStr ''MCP Template Server running...'']]),
         Some reg)) \<and>
   index_ts N sampleText newTransport connect l =
     (main newTransport connect l,
      if fst (main newTransport connect l) = Running
      then Some (registrations N sampleText) else None)"
proof (intro conjI impI)
  show "index_ts N sampleText newTransport connect l =
     (main newTransport connect l,
      if fst (main newTransport connect l) = Running
      then Some (registrations N sampleText) else None)"
    by (simp add: index_ts_def startup_def registrations_ok split: prod.splits outcome.splits)
qed (simp_all add: startup_def main_cases)

text \<open>One start for each failing step, and one that succeeds.\<close>

theorem startup_failure_exits_witness:
  "startup [sample_text_descriptor ''s'', sample_text_descriptor ''t'']
       (Inr ()) (\<lambda>t. Inr ()) [] =
     ((Exit 1, [UncaughtException (DuplicateOperationError ''sample-text'')]),
      (None :: int registry option)) \<and>
   startup (registrations integer_numbers ''s'')
       (Inl (Error ''no stdio'') :: js_error + unit) (\<lambda>t. Inr ()) [] =
     ((Exit 1,
       [ConsoleError [LStr ''MCP Template Server starting...''],
        ConsoleError [LStr ''Error starting MCP Template Server:'',
                      LErr (Error ''no stdio'')]]),
      None) \<and>
   startup (registrations integer_numbers ''s'')
       (Inr ()) (\<lambda>t. Inl (Error ''connect failed'')) [] =
     ((Exit 1,
       [ConsoleError [LStr ''MCP Template Server starting...''],
        ConsoleError [LStr ''Error starting MCP Template Server:'',
                      LErr (Error ''connect failed'')]]),
      None) \<and>
   startup (registrations integer_numbers ''s'') (Inr ()) (\<lambda>t. Inr ()) [] =
     ((Running,
       [ConsoleError [LStr ''MCP Template Server starting...''],
        ConsoleError [LStr ''MCP Template Server running...'']]),
      Some (registrations integer_numbers ''s''))"
  using startup_failure_exits
          [where ds = "[sample_text_descriptor ''s'', sample_text_descriptor ''t'']"
             and e = "DuplicateOperationError ''sample-text''"
             and newTransport = "Inr ()" and connect = "\<lambda>t. Inr ()" and l = "[]",
           THEN conjunct1]
        startup_failure_exits
          [where ds = "registrations integer_numbers ''s''"
             and reg = "registrations integer_numbers ''s''"
             and newTransport = "Inl (Error ''no stdio'') :: js_error + unit"
             and err = "Error ''no stdio''" and connect = "\<lambda>t. Inr ()" and l = "[]",
           THEN conjunct2, THEN conjunct1]
        startup_failure_exits
          [where ds = "registrations integer_numbers ''s''"
             and reg = "registrations integer_numbers ''s''"
             and newTransport = "Inr ()" and t = "()"
             and err = "Error ''connect failed''"
             and connect = "\<lambda>t. Inl (Error ''connect failed'')" and l = "[]",
           THEN conjunct2, THEN conjunct2, THEN conjunct1]
        startup_failure_exits
          [where ds = "registrations integer_numbers ''s''"
             and reg = "registrations integer_numbers ''s''"
             and newTransport = "Inr ()" and t = "()"
             and connect = "\<lambda>t. Inr ()" and l = "[]",
           THEN conjunct2, THEN conjunct2, THEN conjunct2, THEN conjunct1]
  by (simp add: registrations_ok register_def sample_text_descriptor_def)

end
